theory Spec2Isabelle
  imports Complex_Main
begin

section \<open>The gravitational simulation of corpos.py\<close>

text \<open>
  The program keeps a list of bodies and, beside it, a list of trails (one bounded
  double-ended queue of past positions per body). One simulation step computes the
  pairwise accelerations, advances every position with a Verlet update and appends the
  scaled new position to each trail.

  Numbers. The program computes with Python numbers and numpy float64 values. They are
  idealised here as reals: rounding, overflow to infinity and NaN are outside the model.
  The one place where the arithmetic of the program is not an operation on reals is a
  division whose divisor is zero, and each such division is a branch of the model:
  \<^item> the division by the squared distance on line 39 raises \<open>ZeroDivisionError\<close> on
    Python numbers (the fields of a freshly constructed body); on numpy float64 values
    (positions after a step in which the body took part in a pair) it yields inf with a
    warning, and nan in the lines after it. The model reports both as
    \<open>ZeroDivisionError\<close>;
  \<^item> the divisions by the masses on lines 43 to 46 have numpy float64 dividends (they
    come from \<open>np.sqrt\<close>) and yield inf or nan with a warning; there the model stops
    with \<open>NonFinite\<close>, the value having left the reals.
\<close>

subsection \<open>Constants (lines 9 to 11)\<close>

definition G :: real where
  "G = 66743 / 10 ^ 15"

definition SCALE_FACTOR :: real where
  "SCALE_FACTOR = 10 ^ 9"

definition DT :: real where
  "DT = 86400"

subsection \<open>Errors\<close>

datatype error = ZeroDivisionError | NonFinite | ValueError | IndexError | NegativeLength

subsection \<open>Body (lines 13 to 24)\<close>

record body =
  body_mass :: real
  body_x :: real
  body_y :: real
  body_vx :: real
  body_vy :: real
  body_color :: string
  body_prev_x :: real
  body_prev_y :: real
  body_ax :: real
  body_ay :: real

definition Body :: "real \<Rightarrow> real \<Rightarrow> real \<Rightarrow> real \<Rightarrow> real \<Rightarrow> string \<Rightarrow> body" where
  "Body m px py pvx pvy c =
     \<lparr>body_mass = m, body_x = px, body_y = py, body_vx = pvx, body_vy = pvy,
      body_color = c,
      body_prev_x = px - pvx * DT,
      body_prev_y = py - pvy * DT,
      body_ax = 0, body_ay = 0\<rparr>"

subsection \<open>compute_forces (lines 26 to 46)\<close>

text \<open>
  Mutation of the list of bodies is explicit state passing. A function that can raise
  returns the error, if any, together with the list as the raise left it, since the
  caller's list has been mutated in place up to that point.
\<close>

definition reset_acc :: "body \<Rightarrow> body" where
  "reset_acc b = b\<lparr>body_ax := 0, body_ay := 0\<rparr>"

text \<open>The body of the inner loop, lines 34 to 46, for one pair of indices.\<close>

definition pair_step :: "body list \<Rightarrow> nat \<Rightarrow> nat \<Rightarrow> error option \<times> body list" where
  "pair_step bs i j =
     (let dx = body_x (bs ! j) - body_x (bs ! i);
          dy = body_y (bs ! j) - body_y (bs ! i);
          r_sq = dx ^ 2 + dy ^ 2;
          r = sqrt r_sq + 1 / 10 ^ 10
      in if r_sq = 0 then (Some ZeroDivisionError, bs)
         else
           let F = G * body_mass (bs ! i) * body_mass (bs ! j) / r_sq;
               fx = F * dx / r;
               fy = F * dy / r
           in if body_mass (bs ! i) = 0 \<or> body_mass (bs ! j) = 0 then (Some NonFinite, bs)
              else
                let bs1 = bs[i := (bs ! i)\<lparr>body_ax := body_ax (bs ! i) + fx / body_mass (bs ! i)\<rparr>];
                    bs2 = bs1[i := (bs1 ! i)\<lparr>body_ay := body_ay (bs1 ! i) + fy / body_mass (bs1 ! i)\<rparr>];
                    bs3 = bs2[j := (bs2 ! j)\<lparr>body_ax := body_ax (bs2 ! j) - fx / body_mass (bs2 ! j)\<rparr>];
                    bs4 = bs3[j := (bs3 ! j)\<lparr>body_ay := body_ay (bs3 ! j) - fy / body_mass (bs3 ! j)\<rparr>]
                in (None, bs4))"

text \<open>The inner loop \<open>for j in range(i+1, n)\<close>, over the values of \<open>j\<close> still to come.\<close>

fun inner_loop :: "nat \<Rightarrow> nat list \<Rightarrow> body list \<Rightarrow> error option \<times> body list" where
  "inner_loop i [] bs = (None, bs)"
| "inner_loop i (j # js) bs =
     (case pair_step bs i j of
        (Some e, bs') \<Rightarrow> (Some e, bs')
      | (None, bs') \<Rightarrow> inner_loop i js bs')"

text \<open>The outer loop \<open>for i in range(n)\<close>, over the values of \<open>i\<close> still to come.\<close>

fun outer_loop :: "nat list \<Rightarrow> nat \<Rightarrow> body list \<Rightarrow> error option \<times> body list" where
  "outer_loop [] n bs = (None, bs)"
| "outer_loop (i # is) n bs =
     (case inner_loop i [i + 1 ..< n] bs of
        (Some e, bs') \<Rightarrow> (Some e, bs')
      | (None, bs') \<Rightarrow> outer_loop is n bs')"

definition compute_forces :: "body list \<Rightarrow> error option \<times> body list" where
  "compute_forces bs =
     (let n = length bs
      in outer_loop [0 ..< n] n (map reset_acc bs))"

subsection \<open>update_positions (lines 48 to 53)\<close>

definition verlet :: "real \<Rightarrow> body \<Rightarrow> body" where
  "verlet delta b =
     (let new_x = 2 * body_x b - body_prev_x b + body_ax b * delta ^ 2;
          new_y = 2 * body_y b - body_prev_y b + body_ay b * delta ^ 2;
          b1 = b\<lparr>body_prev_x := body_x b, body_x := new_x\<rparr>
      in b1\<lparr>body_prev_y := body_y b1, body_y := new_y\<rparr>)"

fun update_positions :: "body list \<Rightarrow> real \<Rightarrow> body list" where
  "update_positions [] delta = []"
| "update_positions (b # bs) delta = verlet delta b # update_positions bs delta"

subsection \<open>Trails: collections.deque with maxlen\<close>

text \<open>
  A trail is a \<open>deque(maxlen=n)\<close> of pairs. \<open>append\<close> adds on the right and, when the
  length then exceeds \<open>maxlen\<close>, drops one element on the left; \<open>popleft\<close> removes the
  leftmost element and raises \<open>IndexError\<close> on an empty deque.
\<close>

record deque =
  maxlen :: nat
  items :: "(real \<times> real) list"

definition new_deque :: "nat \<Rightarrow> deque" where
  "new_deque n = \<lparr>maxlen = n, items = []\<rparr>"

definition deque_append :: "deque \<Rightarrow> real \<times> real \<Rightarrow> deque" where
  "deque_append d v =
     (let xs = items d @ [v]
      in d\<lparr>items := (if length xs > maxlen d then tl xs else xs)\<rparr>)"

definition popleft :: "deque \<Rightarrow> error + deque" where
  "popleft d = (case items d of [] \<Rightarrow> Inl IndexError | v # vs \<Rightarrow> Inr (d\<lparr>items := vs\<rparr>))"

text \<open>Lines 203 to 205 for one trail: append the sample, then trim against the current
  trail length.\<close>

definition record_sample :: "nat \<Rightarrow> deque \<Rightarrow> real \<times> real \<Rightarrow> error + deque" where
  "record_sample tlen d v =
     (let d1 = deque_append d v
      in if length (items d1) > tlen then popleft d1 else Inr d1)"

subsection \<open>SimulationApp: the simulation state (lines 56 to 70)\<close>

text \<open>
  The preset selector is a read-only combobox over the three preset names, so its
  variable holds the empty string (\<open>None\<close>) or one of the three keys. The trail length is
  the value of a slider ranging over 50 to 500, made an integer: a natural number.
\<close>

datatype preset_name = Sistema_Solar | Estrela_Binaria | Orbita_Lunar

record app =
  bodies :: "body list"
  is_running :: bool
  trail_length :: nat
  dt :: real
  trails :: "deque list"
  preset_var :: "preset_name option"

text \<open>load_presets, lines 112 to 128.\<close>

fun presets :: "preset_name \<Rightarrow> body list" where
  "presets Sistema_Solar =
     [Body (19885 * 10 ^ 26) 0 0 0 0 ''yellow'',
      Body (33011 * 10 ^ 19) (579 * 10 ^ 8) 0 0 47360 ''gray'',
      Body (48675 * 10 ^ 20) (1082 * 10 ^ 8) 0 0 35020 ''orange'',
      Body (59724 * 10 ^ 20) (1496 * 10 ^ 8) 0 0 29780 ''blue'']"
| "presets Estrela_Binaria =
     [Body (10 ^ 30) (- (10 ^ 10)) 0 0 20000 ''red'',
      Body (10 ^ 30) (10 ^ 10) 0 0 (- 20000) ''blue'']"
| "presets Orbita_Lunar =
     [Body (59724 * 10 ^ 20) 0 0 0 0 ''blue'',
      Body (7342 * 10 ^ 19) (3844 * 10 ^ 5) 0 0 1022 ''gray'']"

text \<open>load_selected_preset, lines 131 to 139 (the redraw is presentation).\<close>

definition load_selected_preset :: "app \<Rightarrow> app" where
  "load_selected_preset s =
     (let preset_name = (case preset_var s of None \<Rightarrow> Sistema_Solar | Some p \<Rightarrow> p);
          s1 = s\<lparr>preset_var := Some preset_name\<rparr>;
          s2 = s1\<lparr>bodies := map (\<lambda>b. Body (body_mass b) (body_x b) (body_y b)
                                         (body_vx b) (body_vy b) (body_color b))
                                (presets preset_name)\<rparr>
      in s2\<lparr>trails := map (\<lambda>_. new_deque (trail_length s2)) (bodies s2)\<rparr>)"

text \<open>The state built by \<open>__init__\<close>, lines 62 to 70.\<close>

definition init_app :: app where
  "init_app =
     load_selected_preset
       \<lparr>bodies = [], is_running = False, trail_length = 100, dt = DT, trails = [],
        preset_var = None\<rparr>"

text \<open>
  update_plot, lines 210 to 251, as far as it can raise: the state is only read. The
  plotting library raises \<open>ValueError\<close> on a text that is not a colour for it; which
  texts are colours is the library's table, taken here as the parameter \<open>is_color\<close>.
  A trail that is not empty is drawn in the colour of the body with its index
  (\<open>IndexError\<close> when there is none), then every body is drawn in its colour.
\<close>

fun plot_trails :: "(string \<Rightarrow> bool) \<Rightarrow> nat \<Rightarrow> deque list \<Rightarrow> body list \<Rightarrow> error option" where
  "plot_trails is_color i [] bs = None"
| "plot_trails is_color i (trail # ts) bs =
     (if items trail \<noteq> []
      then (if i < length bs
            then (if is_color (body_color (bs ! i)) then plot_trails is_color (Suc i) ts bs
                  else Some ValueError)
            else Some IndexError)
      else plot_trails is_color (Suc i) ts bs)"

fun plot_bodies :: "(string \<Rightarrow> bool) \<Rightarrow> body list \<Rightarrow> error option" where
  "plot_bodies is_color [] = None"
| "plot_bodies is_color (b # bs) =
     (if is_color (body_color b) then plot_bodies is_color bs else Some ValueError)"

definition update_plot :: "(string \<Rightarrow> bool) \<Rightarrow> app \<Rightarrow> error option" where
  "update_plot is_color s =
     (case plot_trails is_color 0 (trails s) (bodies s) of
        Some e \<Rightarrow> Some e
      | None \<Rightarrow> plot_bodies is_color (bodies s))"

text \<open>
  validate_new_body, lines 165 to 180. The texts of the dialog are given by what
  \<open>float\<close> makes of them: \<open>None\<close> where \<open>float\<close> raises \<open>ValueError\<close>. The redraw
  of line 178 is inside the \<open>try\<close>, after the two appends: the result holds the
  exception that line 179 catches and the error box shows, if any, and the state as the
  call leaves it.
\<close>

record entries =
  Massa :: "real option"
  Posicao_X :: "real option"
  Posicao_Y :: "real option"
  Velocidade_X :: "real option"
  Velocidade_Y :: "real option"
  Cor :: string

definition validate_new_body :: "(string \<Rightarrow> bool) \<Rightarrow> app \<Rightarrow> entries \<Rightarrow> error option \<times> app" where
  "validate_new_body is_color s e =
     (case (Massa e, Posicao_X e, Posicao_Y e, Velocidade_X e, Velocidade_Y e) of
        (Some m, Some px, Some py, Some pvx, Some pvy) \<Rightarrow>
          (let new_body = Body m px py pvx pvy (Cor e);
               s1 = s\<lparr>bodies := bodies s @ [new_body]\<rparr>;
               s2 = s1\<lparr>trails := trails s1 @ [new_deque (trail_length s1)]\<rparr>
           in (update_plot is_color s2, s2))
      | _ \<Rightarrow> (Some ValueError, s))"

text \<open>update_dt, lines 182 to 183.\<close>

definition update_dt :: "app \<Rightarrow> real \<Rightarrow> app" where
  "update_dt s days = s\<lparr>dt := days * 86400\<rparr>"

text \<open>
  Python's \<open>int\<close> on a text, in base ten: blanks at both ends are dropped, then an
  optional sign, then digits, with single underscores allowed between digits; anything
  else, a decimal point included, raises \<open>ValueError\<close>. (Texts are ASCII here, and the
  limit that recent Python versions put on the number of digits is left out.)
\<close>

definition is_space :: "char \<Rightarrow> bool" where
  "is_space c \<longleftrightarrow> (of_char c :: nat) \<in> set ([9 ..< 14] @ [28 ..< 33])"

definition is_digit :: "char \<Rightarrow> bool" where
  "is_digit c \<longleftrightarrow> (48 :: nat) \<le> of_char c \<and> (of_char c :: nat) \<le> 57"

definition digit_val :: "char \<Rightarrow> nat" where
  "digit_val c = of_char c - 48"

definition strip :: "string \<Rightarrow> string" where
  "strip v = rev (dropWhile is_space (rev (dropWhile is_space v)))"

text \<open>The digits after a first digit, \<open>acc\<close> being the value read so far.\<close>

fun more_digits :: "string \<Rightarrow> nat \<Rightarrow> nat option" where
  "more_digits [] acc = Some acc"
| "more_digits [c] acc = (if is_digit c then Some (10 * acc + digit_val c) else None)"
| "more_digits (c # d # ds) acc =
     (if is_digit c then more_digits (d # ds) (10 * acc + digit_val c)
      else if c = CHR ''_'' \<and> is_digit d then more_digits ds (10 * acc + digit_val d)
      else None)"

definition unsigned_int :: "string \<Rightarrow> nat option" where
  "unsigned_int v =
     (case v of
        [] \<Rightarrow> None
      | c # cs \<Rightarrow> if is_digit c then more_digits cs (digit_val c) else None)"

definition py_int :: "string \<Rightarrow> error + int" where
  "py_int v =
     (case strip v of
        [] \<Rightarrow> Inl ValueError
      | c # cs \<Rightarrow>
          if c = CHR ''-''
          then (case unsigned_int cs of None \<Rightarrow> Inl ValueError | Some n \<Rightarrow> Inr (- int n))
          else if c = CHR ''+''
          then (case unsigned_int cs of None \<Rightarrow> Inl ValueError | Some n \<Rightarrow> Inr (int n))
          else (case unsigned_int (c # cs) of None \<Rightarrow> Inl ValueError | Some n \<Rightarrow> Inr (int n)))"

text \<open>
  The command of the trail slider, line 92: \<open>setattr(self, 'trail_length', int(v))\<close>,
  where \<open>v\<close> is the text the slider passes. When \<open>int\<close> raises, nothing is stored.
  The slider ranges over 50 to 500 and never passes a negative number; the code would
  store one, and the model, whose trail length is a natural number, stops there with
  \<open>NegativeLength\<close>.
\<close>

definition set_trail_length :: "app \<Rightarrow> string \<Rightarrow> error option \<times> app" where
  "set_trail_length s v =
     (case py_int v of
        Inl e \<Rightarrow> (Some e, s)
      | Inr n \<Rightarrow>
          if n < 0 then (Some NegativeLength, s)
          else (None, s\<lparr>trail_length := nat n\<rparr>))"

text \<open>The loop of lines 202 to 205, \<open>i\<close> counting the bodies already visited.\<close>

fun update_trails :: "nat \<Rightarrow> body list \<Rightarrow> nat \<Rightarrow> deque list \<Rightarrow> error option \<times> deque list" where
  "update_trails i [] tlen ts = (None, ts)"
| "update_trails i (b # bs) tlen ts =
     (if i < length ts
      then (case record_sample tlen (ts ! i) (body_x b / SCALE_FACTOR, body_y b / SCALE_FACTOR) of
              Inl e \<Rightarrow> (Some e, ts)
            | Inr d \<Rightarrow> update_trails (Suc i) bs tlen (ts[i := d]))
      else (Some IndexError, ts))"

text \<open>run_simulation, lines 196 to 208, without the redraw and the rescheduling.\<close>

definition run_simulation :: "app \<Rightarrow> error option \<times> app" where
  "run_simulation s =
     (if is_running s
      then (case compute_forces (bodies s) of
              (Some e, bs) \<Rightarrow> (Some e, s\<lparr>bodies := bs\<rparr>)
            | (None, bs) \<Rightarrow>
                (let bs' = update_positions bs (dt s)
                 in case update_trails 0 bs' (trail_length s) (trails s) of
                      (e, ts) \<Rightarrow> (e, s\<lparr>bodies := bs', trails := ts\<rparr>)))
      else (None, s))"

text \<open>toggle_simulation and reset_simulation, lines 185 to 194 (the button text is
  presentation).\<close>

definition toggle_simulation :: "app \<Rightarrow> error option \<times> app" where
  "toggle_simulation s =
     (let s1 = s\<lparr>is_running := \<not> is_running s\<rparr>
      in if is_running s1 then run_simulation s1 else (None, s1))"

definition reset_simulation :: "app \<Rightarrow> app" where
  "reset_simulation s = load_selected_preset (s\<lparr>is_running := False\<rparr>)"

subsection \<open>Sequences of calls\<close>

text \<open>A sequence of record calls on one trail, under a trail length that stays the same.\<close>

fun record_all :: "nat \<Rightarrow> deque \<Rightarrow> (real \<times> real) list \<Rightarrow> error + deque" where
  "record_all tlen d [] = Inr d"
| "record_all tlen d (v # vs) =
     (case record_sample tlen d v of Inl e \<Rightarrow> Inl e | Inr d' \<Rightarrow> record_all tlen d' vs)"

text \<open>A number of calls of run_simulation, each starting from the state the one before
  left, whether it raised or not.\<close>

fun run_steps :: "nat \<Rightarrow> app \<Rightarrow> app" where
  "run_steps 0 s = s"
| "run_steps (Suc k) s = run_steps k (snd (run_simulation s))"

text \<open>The pairs of indices in the order in which the two loops of compute_forces reach
  them, and the loop body run over a list of pairs.\<close>

definition pair_order :: "nat \<Rightarrow> (nat \<times> nat) list" where
  "pair_order n = concat (map (\<lambda>i. map (Pair i) [i + 1 ..< n]) [0 ..< n])"

fun run_pairs :: "(nat \<times> nat) list \<Rightarrow> body list \<Rightarrow> error option \<times> body list" where
  "run_pairs [] bs = (None, bs)"
| "run_pairs ((i, j) # ps) bs =
     (case pair_step bs i j of
        (Some e, bs') \<Rightarrow> (Some e, bs')
      | (None, bs') \<Rightarrow> run_pairs ps bs')"

text \<open>
  The force of one pair as lines 34 to 41 compute it from the two bodies, for stating what
  the loop body adds to the accelerations; the division by the squared distance is
  guarded where it is used.
\<close>

definition pair_force :: "body \<Rightarrow> body \<Rightarrow> real \<times> real" where
  "pair_force bi bj =
     (let dx = body_x bj - body_x bi;
          dy = body_y bj - body_y bi;
          r_sq = dx ^ 2 + dy ^ 2;
          r = sqrt r_sq + 1 / 10 ^ 10;
          F = G * body_mass bi * body_mass bj / r_sq
      in (F * dx / r, F * dy / r))"

text \<open>Projections of a body: its position, and its fields apart from those a given
  routine is said to write.\<close>

definition body_pos :: "body \<Rightarrow> real \<times> real" where
  "body_pos b = (body_x b, body_y b)"

definition outside_acc :: "body \<Rightarrow> real \<times> real \<times> real \<times> real \<times> real \<times> real \<times> real \<times> string" where
  "outside_acc b =
     (body_mass b, body_x b, body_y b, body_prev_x b, body_prev_y b, body_vx b, body_vy b,
      body_color b)"

definition outside_pos :: "body \<Rightarrow> real \<times> real \<times> real \<times> string \<times> real \<times> real" where
  "outside_pos b = (body_mass b, body_vx b, body_vy b, body_color b, body_ax b, body_ay b)"

definition constants_of :: "body \<Rightarrow> real \<times> real \<times> real \<times> string" where
  "constants_of b = (body_mass b, body_vx b, body_vy b, body_color b)"

text \<open>The texts the dialog of add_body_dialog starts with, lines 145 to 152.\<close>

definition default_entries :: entries where
  "default_entries =
     \<lparr>Massa = Some (10 ^ 24), Posicao_X = Some 0, Posicao_Y = Some 0,
      Velocidade_X = Some 0, Velocidade_Y = Some 0, Cor = ''white''\<rparr>"

text \<open>
  For statements about concrete calls the colours are those the program itself names,
  each of them a colour for the plotting library; \<open>''nocolor''\<close>, used below, is
  none for the library either.
\<close>

definition known_color :: "string \<Rightarrow> bool" where
  "known_color c \<longleftrightarrow> c \<in> set [''yellow'', ''gray'', ''orange'', ''blue'', ''red'', ''white'']"

text \<open>
  States used below. The first is the state after the program has started and the user
  has added a body with the values the dialog proposes; the second, the state after the
  user has loaded the preset of the binary star and pressed the start button; the third,
  the initial state with sixty samples already in every trail (their values do not
  matter).
\<close>

definition coincident_state :: app where
  "coincident_state = snd (validate_new_body known_color init_app default_entries)"


definition long_trail_state :: app where
  "long_trail_state =
     init_app\<lparr>trails := map (\<lambda>_. \<lparr>maxlen = 100, items = replicate 60 (0, 0)\<rparr>) (bodies init_app)\<rparr>"

section \<open>Properties\<close>

subsection \<open>The integrator\<close>

lemma update_positions_map: "update_positions bs delta = map (verlet delta) bs"
  by (induction bs) simp_all

text \<open>
  Claim C1. One call of update_positions keeps the number of bodies and gives every body
  the new position \<open>2 * position - previous_position + acceleration * dt\<^sup>2\<close>,
  componentwise, and the old position as its previous position; the result for a body
  depends on that body alone.
\<close>

theorem update_positions_verlet:
  "length (update_positions bs delta) = length bs \<and>
   (\<forall>i < length bs.
      body_x (update_positions bs delta ! i)
        = 2 * body_x (bs ! i) - body_prev_x (bs ! i) + body_ax (bs ! i) * delta ^ 2 \<and>
      body_y (update_positions bs delta ! i)
        = 2 * body_y (bs ! i) - body_prev_y (bs ! i) + body_ay (bs ! i) * delta ^ 2 \<and>
      body_prev_x (update_positions bs delta ! i) = body_x (bs ! i) \<and>
      body_prev_y (update_positions bs delta ! i) = body_y (bs ! i))"
  by (simp add: update_positions_map verlet_def Let_def)

theorem update_positions_verlet_witness:
  "length (update_positions (presets Estrela_Binaria) 86400) = 2 \<and>
   body_x (update_positions (presets Estrela_Binaria) 86400 ! 1) = 10 ^ 10 \<and>
   body_y (update_positions (presets Estrela_Binaria) 86400 ! 1) = - 1728000000 \<and>
   body_prev_y (update_positions (presets Estrela_Binaria) 86400 ! 1) = 0"
proof -
  have len: "1 < length (presets Estrela_Binaria)" by simp
  note inst = update_positions_verlet [of "presets Estrela_Binaria" 86400]
  from inst have "length (update_positions (presets Estrela_Binaria) 86400) = 2" by simp
  moreover from inst len have
    "body_x (update_positions (presets Estrela_Binaria) 86400 ! 1)
       = 2 * body_x (presets Estrela_Binaria ! 1) - body_prev_x (presets Estrela_Binaria ! 1)
         + body_ax (presets Estrela_Binaria ! 1) * 86400 ^ 2"
    "body_y (update_positions (presets Estrela_Binaria) 86400 ! 1)
       = 2 * body_y (presets Estrela_Binaria ! 1) - body_prev_y (presets Estrela_Binaria ! 1)
         + body_ay (presets Estrela_Binaria ! 1) * 86400 ^ 2"
    "body_prev_y (update_positions (presets Estrela_Binaria) 86400 ! 1)
       = body_y (presets Estrela_Binaria ! 1)"
    by blast+
  ultimately show ?thesis by (simp add: Body_def DT_def)
qed

subsection \<open>Trails\<close>

lemma record_sample_exact:
  assumes "length (items d) \<le> min (maxlen d) tlen"
  shows "record_sample tlen d v =
           Inr (d\<lparr>items := drop (length (items d) + 1 - min (maxlen d) tlen) (items d @ [v])\<rparr>)"
proof -
  define xs where "xs = items d @ [v]"
  have lx: "length xs = Suc (length (items d))" by (simp add: xs_def)
  have ne: "xs \<noteq> []" by (simp add: xs_def)
  have tl1: "tl xs = drop 1 xs" by (metis One_nat_def drop0 drop_Suc)
  have ltl: "length (tl xs) = length (items d)" using lx by simp
  consider (room) "length (items d) < min (maxlen d) tlen"
    | (full) "length (items d) = maxlen d" "maxlen d \<le> tlen"
    | (trim) "length (items d) = tlen" "tlen < maxlen d"
    using assms by linarith
  then have "record_sample tlen d v
      = Inr (d\<lparr>items := drop (length (items d) + 1 - min (maxlen d) tlen) xs\<rparr>)"
  proof cases
    case room
    then have "length (items d) + 1 - min (maxlen d) tlen = 0" by simp
    moreover have "record_sample tlen d v = Inr (d\<lparr>items := xs\<rparr>)"
      using room lx unfolding record_sample_def deque_append_def Let_def xs_def [symmetric]
      by simp
    ultimately show ?thesis by simp
  next
    case full
    then have "length (items d) + 1 - min (maxlen d) tlen = 1" by simp
    moreover have "record_sample tlen d v = Inr (d\<lparr>items := tl xs\<rparr>)"
      using full lx ltl unfolding record_sample_def deque_append_def Let_def xs_def [symmetric]
      by simp
    ultimately show ?thesis using tl1 by simp
  next
    case trim
    then have "length (items d) + 1 - min (maxlen d) tlen = 1" by simp
    moreover obtain y ys where c: "xs = y # ys" using ne by (cases xs) auto
    have "record_sample tlen d v = Inr (d\<lparr>items := tl xs\<rparr>)"
      using trim lx c unfolding record_sample_def deque_append_def popleft_def Let_def
        xs_def [symmetric]
      by simp
    ultimately show ?thesis using tl1 by simp
  qed
  then show ?thesis unfolding xs_def .
qed

lemma record_all_exact:
  "length (items d) \<le> min (maxlen d) tlen \<Longrightarrow>
   record_all tlen d vs =
     Inr (d\<lparr>items := drop (length (items d) + length vs - min (maxlen d) tlen) (items d @ vs)\<rparr>)"
proof (induction vs arbitrary: d)
  case Nil
  then show ?case by simp
next
  case (Cons v vs)
  define m where "m = min (maxlen d) tlen"
  define xs where "xs = items d @ [v]"
  define d1 where "d1 = d\<lparr>items := drop (length (items d) + 1 - m) xs\<rparr>"
  have lx: "length xs = Suc (length (items d))" by (simp add: xs_def)
  have le: "length (items d) \<le> m" using Cons.prems by (simp add: m_def)
  have step: "record_sample tlen d v = Inr d1"
    using record_sample_exact [OF Cons.prems] by (simp add: d1_def m_def xs_def)
  have it: "items d1 = drop (length (items d) + 1 - m) xs" and ml: "maxlen d1 = maxlen d"
    by (simp_all add: d1_def)
  have l1: "length (items d1) = min (Suc (length (items d))) m"
    unfolding it using le lx by simp
  then have inv: "length (items d1) \<le> min (maxlen d1) tlen"
    unfolding ml m_def by linarith
  have k: "length (items d) + 1 - m \<le> length xs" using lx by simp
  have app: "items d1 @ vs = drop (length (items d) + 1 - m) (xs @ vs)"
    unfolding it using k by simp
  have "record_all tlen d1 vs
      = Inr (d1\<lparr>items := drop (length (items d1) + length vs - min (maxlen d1) tlen)
                                (items d1 @ vs)\<rparr>)"
    by (rule Cons.IH [OF inv])
  moreover have "drop (length (items d1) + length vs - min (maxlen d1) tlen) (items d1 @ vs)
      = drop (length (items d) + length (v # vs) - m) (xs @ vs)"
  proof -
    have "drop (length (items d1) + length vs - min (maxlen d1) tlen) (items d1 @ vs)
        = drop (min (Suc (length (items d))) m + length vs - m + (length (items d) + 1 - m))
            (xs @ vs)"
      unfolding app l1 ml m_def [symmetric] by (rule drop_drop)
    moreover have "min (Suc (length (items d))) m + length vs - m + (length (items d) + 1 - m)
        = length (items d) + length (v # vs) - m"
      using le by (auto simp: min_def add.commute)
    ultimately show ?thesis by simp
  qed
  ultimately have "record_all tlen d1 vs
      = Inr (d\<lparr>items := drop (length (items d) + length (v # vs) - m) (xs @ vs)\<rparr>)"
    by (simp add: d1_def)
  then show ?case using step by (simp add: xs_def m_def)
qed

text \<open>
  Claim C7. A trail created with capacity \<open>c\<close> (as lines 138 and 176 create it) and
  then given any sequence \<open>vs\<close> of record calls under a trail length \<open>tlen\<close> never
  fails and holds exactly the last \<open>min c tlen\<close> samples recorded (all of them while
  there are fewer): the oldest go first, and the trail never holds more than its capacity
  nor more than the trail length. The program creates a trail with the trail length as
  its capacity, \<open>tlen = c\<close>. As \<open>vs\<close> is any sequence, this holds after every call
  of it.
\<close>

theorem trail_bound:
  "record_all tlen (new_deque c) vs
     = Inr \<lparr>maxlen = c, items = drop (length vs - min c tlen) vs\<rparr> \<and>
   length (drop (length vs - min c tlen) vs) \<le> c \<and>
   length (drop (length vs - min c tlen) vs) \<le> tlen"
  using record_all_exact [of "new_deque c" tlen vs]
  by (auto simp: new_deque_def)

lemma length_init_bodies: "length (bodies init_app) = 4"
  by (simp add: init_app_def load_selected_preset_def Let_def)

subsection \<open>Adding a body\<close>

lemma plot_trails_ok:
  "i + length ts \<le> length bs \<Longrightarrow> \<forall>b \<in> set bs. is_color (body_color b) \<Longrightarrow>
   plot_trails is_color i ts bs = None"
  by (induction ts arbitrary: i) simp_all

lemma plot_bodies_ok:
  "\<forall>b \<in> set bs. is_color (body_color b) \<Longrightarrow> plot_bodies is_color bs = None"
  by (induction bs) simp_all

lemma update_plot_ok:
  "length (trails s) \<le> length (bodies s) \<Longrightarrow>
   \<forall>b \<in> set (bodies s). is_color (body_color b) \<Longrightarrow> update_plot is_color s = None"
  by (simp add: update_plot_def plot_trails_ok plot_bodies_ok)

lemma init_app_fields:
  "bodies init_app = presets Sistema_Solar"
  "trails init_app = [new_deque 100, new_deque 100, new_deque 100, new_deque 100]"
  "trail_length init_app = 100" "\<not> is_running init_app" "dt init_app = DT"
  by (simp_all add: init_app_def load_selected_preset_def Let_def Body_def)

lemma init_app_colors: "\<forall>b \<in> set (bodies init_app). known_color (body_color b)"
  by (simp add: init_app_fields Body_def known_color_def)

text \<open>
  Claim C4, as stated, fails: the dialog's values with mass 0, and with mass -5, are
  accepted by validate_new_body. No error is caught, and the list of bodies grows from
  four to five.
\<close>

theorem add_body_nonpositive_mass_counterexample:
  "fst (validate_new_body known_color init_app (default_entries\<lparr>Massa := Some 0\<rparr>)) = None \<and>
   length (bodies (snd (validate_new_body known_color init_app
                          (default_entries\<lparr>Massa := Some 0\<rparr>)))) = 5 \<and>
   length (bodies init_app) = 4 \<and>
   fst (validate_new_body known_color init_app (default_entries\<lparr>Massa := Some (- 5)\<rparr>)) = None \<and>
   length (bodies (snd (validate_new_body known_color init_app
                          (default_entries\<lparr>Massa := Some (- 5)\<rparr>)))) = 5"
proof -
  have plot: "update_plot known_color
      (init_app\<lparr>bodies := bodies init_app @ [Body m 0 0 0 0 ''white''],
                 trails := trails init_app @ [new_deque 100]\<rparr>) = None" for m
  proof (rule update_plot_ok)
    show "length (trails (init_app\<lparr>bodies := bodies init_app @ [Body m 0 0 0 0 ''white''],
                 trails := trails init_app @ [new_deque 100]\<rparr>))
        \<le> length (bodies (init_app\<lparr>bodies := bodies init_app @ [Body m 0 0 0 0 ''white''],
                 trails := trails init_app @ [new_deque 100]\<rparr>))"
      by (simp add: init_app_fields)
    show "\<forall>b \<in> set (bodies (init_app\<lparr>bodies := bodies init_app @ [Body m 0 0 0 0 ''white''],
                 trails := trails init_app @ [new_deque 100]\<rparr>)). known_color (body_color b)"
      using init_app_colors by (simp add: Body_def known_color_def)
  qed
  show ?thesis
    using plot [of 0] plot [of "- 5"]
    by (simp add: validate_new_body_def default_entries_def Let_def length_init_bodies
          init_app_fields(3))
qed

text \<open>
  Claim C4, amended. validate_new_body does not look at the sign of the mass: when the
  five numeric fields parse, whatever the mass, the new body and an empty trail of the
  current trail length are appended, and the error reported is the one the redraw that
  follows raises, if any: none when every colour is a colour for the plotting library
  and there are as many trails as bodies. When a numeric field does not parse the call
  fails with ValueError and the state is unchanged.
\<close>

theorem add_body_unchecked_mass:
  "validate_new_body is_color s
      \<lparr>Massa = Some m, Posicao_X = Some px, Posicao_Y = Some py,
       Velocidade_X = Some pvx, Velocidade_Y = Some pvy, Cor = c\<rparr>
     = (update_plot is_color
          (s\<lparr>bodies := bodies s @ [Body m px py pvx pvy c],
             trails := trails s @ [new_deque (trail_length s)]\<rparr>),
        s\<lparr>bodies := bodies s @ [Body m px py pvx pvy c],
          trails := trails s @ [new_deque (trail_length s)]\<rparr>) \<and>
   ((\<forall>b \<in> set (bodies s). is_color (body_color b)) \<and> is_color c \<and>
    length (trails s) = length (bodies s)
      \<longrightarrow> fst (validate_new_body is_color s
                 \<lparr>Massa = Some m, Posicao_X = Some px, Posicao_Y = Some py,
                  Velocidade_X = Some pvx, Velocidade_Y = Some pvy, Cor = c\<rparr>) = None) \<and>
   (Massa e = None \<or> Posicao_X e = None \<or> Posicao_Y e = None \<or>
    Velocidade_X e = None \<or> Velocidade_Y e = None
      \<longrightarrow> validate_new_body is_color s e = (Some ValueError, s))"
proof -
  let ?s' = "s\<lparr>bodies := bodies s @ [Body m px py pvx pvy c],
               trails := trails s @ [new_deque (trail_length s)]\<rparr>"
  let ?e = "\<lparr>Massa = Some m, Posicao_X = Some px, Posicao_Y = Some py,
            Velocidade_X = Some pvx, Velocidade_Y = Some pvy, Cor = c\<rparr>"
  have a: "validate_new_body is_color s ?e = (update_plot is_color ?s', ?s')"
    by (simp add: validate_new_body_def Let_def)
  have b: "update_plot is_color ?s' = None"
    if "\<forall>b \<in> set (bodies s). is_color (body_color b)" "is_color c"
       "length (trails s) = length (bodies s)"
    using that by (intro update_plot_ok) (auto simp: Body_def)
  have c: "validate_new_body is_color s e = (Some ValueError, s)"
    if "Massa e = None \<or> Posicao_X e = None \<or> Posicao_Y e = None \<or>
        Velocidade_X e = None \<or> Velocidade_Y e = None"
    using that by (auto simp: validate_new_body_def split: option.splits)
  from a b c show ?thesis by simp
qed

theorem add_body_unchecked_mass_witness:
  "known_color ''white'' \<and>
   length (trails init_app) = length (bodies init_app) \<and>
   fst (validate_new_body known_color init_app
          \<lparr>Massa = Some (- 5), Posicao_X = Some 0, Posicao_Y = Some 0,
           Velocidade_X = Some 0, Velocidade_Y = Some 0, Cor = ''white''\<rparr>) = None \<and>
   validate_new_body known_color init_app (default_entries\<lparr>Massa := None\<rparr>)
     = (Some ValueError, init_app)"
proof -
  have h1: "\<forall>b \<in> set (bodies init_app). known_color (body_color b)"
    by (rule init_app_colors)
  have h2: "known_color ''white''" by (simp add: known_color_def)
  have h3: "length (trails init_app) = length (bodies init_app)"
    by (simp add: init_app_fields)
  have h4: "Massa (default_entries\<lparr>Massa := None\<rparr>) = None" by simp
  note inst = add_body_unchecked_mass [of known_color init_app "- 5" 0 0 0 0 "''white''"
      "default_entries\<lparr>Massa := None\<rparr>"]
  from inst h1 h2 h3 h4 show ?thesis by blast
qed

text \<open>
  A text that is no colour is found out by the redraw only, after the two appends: the
  error is reported and the body stays in the list.
\<close>

lemma bad_color_after_append:
  "fst (validate_new_body known_color init_app (default_entries\<lparr>Cor := ''nocolor''\<rparr>))
     = Some ValueError \<and>
   length (bodies (snd (validate_new_body known_color init_app
                          (default_entries\<lparr>Cor := ''nocolor''\<rparr>)))) = 5"
  by (simp add: validate_new_body_def update_plot_def default_entries_def Let_def
        init_app_fields Body_def known_color_def new_deque_def)

subsection \<open>The bootstrap of the previous position\<close>

text \<open>
  Claim C5, as stated, fails: with the time step set to two days (172800 s), a body added
  with velocity 1 m/s along x at x = 0 gets the previous position -86400, not
  0 - 1 * 172800.
\<close>

theorem bootstrap_current_dt_counterexample:
  "dt (update_dt init_app 2) = 172800 \<and>
   body_prev_x (last (bodies (snd (validate_new_body known_color (update_dt init_app 2)
                                     (default_entries\<lparr>Velocidade_X := Some 1\<rparr>)))))
     = - 86400 \<and>
   body_x (last (bodies (snd (validate_new_body known_color (update_dt init_app 2)
                                     (default_entries\<lparr>Velocidade_X := Some 1\<rparr>)))))
     - body_vx (last (bodies (snd (validate_new_body known_color (update_dt init_app 2)
                                     (default_entries\<lparr>Velocidade_X := Some 1\<rparr>)))))
       * dt (update_dt init_app 2)
     = - 172800"
  by (simp add: validate_new_body_def default_entries_def update_dt_def Let_def Body_def DT_def)

text \<open>
  Claim C5, amended. The previous position of a new body is its position minus its
  velocity times the constant DT = 86400 s; the bodies that validate_new_body and
  load_selected_preset build do not depend on the time step of the simulation.
\<close>

theorem bootstrap_constant_DT:
  "body_prev_x (Body m px py pvx pvy c) = px - pvx * 86400 \<and>
   body_prev_y (Body m px py pvx pvy c) = py - pvy * 86400 \<and>
   bodies (snd (validate_new_body is_color (s\<lparr>dt := d\<rparr>) e)) = bodies (snd (validate_new_body is_color s e)) \<and>
   bodies (load_selected_preset (s\<lparr>dt := d\<rparr>)) = bodies (load_selected_preset s)"
  by (auto simp: Body_def DT_def validate_new_body_def load_selected_preset_def Let_def
           split: option.splits)

subsection \<open>Bodies and trails stay aligned\<close>

text \<open>
  Claim C9. After load_selected_preset there are as many trails as bodies; and
  validate_new_body, whether it appends or fails, keeps the two lists equally long.
\<close>

theorem index_alignment:
  "length (trails (load_selected_preset s)) = length (bodies (load_selected_preset s)) \<and>
   (length (trails s) = length (bodies s) \<longrightarrow>
      length (trails (snd (validate_new_body is_color s e))) = length (bodies (snd (validate_new_body is_color s e))))"
  by (auto simp: validate_new_body_def load_selected_preset_def Let_def split: option.splits)

theorem index_alignment_witness:
  "length (trails init_app) = length (bodies init_app) \<and>
   length (trails (snd (validate_new_body known_color init_app default_entries))) = 5 \<and>
   length (bodies (snd (validate_new_body known_color init_app default_entries))) = 5 \<and>
   length (trails (snd (validate_new_body known_color init_app (default_entries\<lparr>Massa := None\<rparr>)))) = 4 \<and>
   length (bodies (snd (validate_new_body known_color init_app (default_entries\<lparr>Massa := None\<rparr>)))) = 4"
proof -
  have inv: "length (trails init_app) = length (bodies init_app)"
    by (simp add: init_app_def load_selected_preset_def Let_def)
  have ok: "length (bodies (snd (validate_new_body known_color init_app default_entries))) = 5"
    by (simp add: validate_new_body_def default_entries_def Let_def length_init_bodies)
  have ko: "length (bodies (snd (validate_new_body known_color init_app (default_entries\<lparr>Massa := None\<rparr>)))) = 4"
    by (simp add: validate_new_body_def default_entries_def Let_def length_init_bodies)
  from index_alignment [of init_app known_color default_entries] inv ok
  have "length (trails (snd (validate_new_body known_color init_app default_entries))) = 5" by simp
  moreover from index_alignment [of init_app known_color "default_entries\<lparr>Massa := None\<rparr>"] inv ko
  have "length (trails (snd (validate_new_body known_color init_app (default_entries\<lparr>Massa := None\<rparr>)))) = 4"
    by simp
  ultimately show ?thesis using inv ok ko by simp
qed

subsection \<open>What the force computation and the integrator write\<close>

lemma map_update_same: "f y = f (xs ! i) \<Longrightarrow> map f (xs[i := y]) = map f xs"
proof (rule nth_equalityI)
  show "length (map f (xs[i := y])) = length (map f xs)" by simp
next
  fix k
  assume fy: "f y = f (xs ! i)" and "k < length (map f (xs[i := y]))"
  then have k: "k < length xs" by simp
  show "map f (xs[i := y]) ! k = map f xs ! k"
  proof (cases "k = i")
    case True
    then show ?thesis using k fy by simp
  next
    case False
    then show ?thesis using k by simp
  qed
qed

lemma pair_step_frame:
  assumes "\<And>b a. f (b\<lparr>body_ax := a\<rparr>) = f b" and "\<And>b a. f (b\<lparr>body_ay := a\<rparr>) = f b"
  shows "map f (snd (pair_step bs i j)) = map f bs"
proof -
  have r1: "\<And>xs k a. map f (xs[k := (xs ! k)\<lparr>body_ax := a\<rparr>]) = map f xs"
    by (simp add: map_update_same assms)
  have r2: "\<And>xs k a. map f (xs[k := (xs ! k)\<lparr>body_ay := a\<rparr>]) = map f xs"
    by (simp add: map_update_same assms)
  show ?thesis
    unfolding pair_step_def Let_def
    by (simp only: r1 r2 snd_conv simp_thms split: if_split)
qed

lemma run_pairs_frame:
  assumes "\<And>b a. f (b\<lparr>body_ax := a\<rparr>) = f b" and "\<And>b a. f (b\<lparr>body_ay := a\<rparr>) = f b"
  shows "map f (snd (run_pairs ps bs)) = map f bs"
proof (induction ps arbitrary: bs)
  case Nil
  then show ?case by simp
next
  case (Cons p ps)
  obtain i j where p: "p = (i, j)" by (cases p)
  obtain e bs' where st: "pair_step bs i j = (e, bs')" by (cases "pair_step bs i j")
  have fr: "map f bs' = map f bs"
    using pair_step_frame [of f bs i j, OF assms] st by simp
  show ?case
  proof (cases e)
    case None
    then show ?thesis using p st fr Cons.IH [of bs'] by simp
  next
    case (Some a)
    then show ?thesis using p st fr by simp
  qed
qed

lemma inner_loop_run_pairs: "inner_loop i js bs = run_pairs (map (Pair i) js) bs"
  by (induction js arbitrary: bs) (simp_all split: prod.splits option.splits)

lemma run_pairs_append:
  "run_pairs (ps @ qs) bs =
     (case run_pairs ps bs of (Some e, bs') \<Rightarrow> (Some e, bs') | (None, bs') \<Rightarrow> run_pairs qs bs')"
  by (induction ps arbitrary: bs) (auto split: prod.splits option.splits)

lemma outer_loop_run_pairs:
  "outer_loop is n bs = run_pairs (concat (map (\<lambda>i. map (Pair i) [i + 1 ..< n]) is)) bs"
  by (induction "is" arbitrary: bs)
     (simp_all add: run_pairs_append inner_loop_run_pairs split: prod.splits option.splits)

lemma compute_forces_run_pairs:
  "compute_forces bs = run_pairs (pair_order (length bs)) (map reset_acc bs)"
  by (simp add: compute_forces_def pair_order_def outer_loop_run_pairs Let_def)

lemma set_pair_order: "set (pair_order n) = {(i, j). i < j \<and> j < n}"
proof -
  have "\<And>a b. a < b \<Longrightarrow> b < n \<Longrightarrow> \<exists>x\<in>{0..<n}. (a, b) \<in> Pair x ` {Suc x..<n}"
  proof -
    fix a b :: nat
    assume "a < b" "b < n"
    then have "a \<in> {0..<n}" "(a, b) \<in> Pair a ` {Suc a..<n}" by auto
    then show "\<exists>x\<in>{0..<n}. (a, b) \<in> Pair x ` {Suc x..<n}" by blast
  qed
  then show ?thesis by (auto simp: pair_order_def)
qed

lemma distinct_pairs_by_first:
  "distinct is \<Longrightarrow> (\<And>i. distinct (f i)) \<Longrightarrow>
   distinct (concat (map (\<lambda>i. map (Pair i) (f i)) is))"
  by (induction "is") (auto simp: distinct_map inj_on_def)

lemma distinct_pair_order: "distinct (pair_order n)"
  unfolding pair_order_def by (rule distinct_pairs_by_first) simp_all

lemma compute_forces_frame:
  assumes "\<And>b a. f (b\<lparr>body_ax := a\<rparr>) = f b" and "\<And>b a. f (b\<lparr>body_ay := a\<rparr>) = f b"
  shows "map f (snd (compute_forces bs)) = map f bs"
proof -
  have "map f (map reset_acc bs) = map f bs"
    by (simp add: reset_acc_def assms)
  then show ?thesis
    using run_pairs_frame [of f, OF assms] by (simp add: compute_forces_run_pairs)
qed

lemma update_positions_frame:
  assumes "\<And>b a. f (b\<lparr>body_x := a\<rparr>) = f b" and "\<And>b a. f (b\<lparr>body_y := a\<rparr>) = f b"
    and "\<And>b a. f (b\<lparr>body_prev_x := a\<rparr>) = f b" and "\<And>b a. f (b\<lparr>body_prev_y := a\<rparr>) = f b"
  shows "map f (update_positions bs delta) = map f bs"
  by (simp add: update_positions_map verlet_def Let_def assms)

lemma run_simulation_constants:
  "map constants_of (bodies (snd (run_simulation s))) = map constants_of (bodies s)"
proof -
  have cf: "map constants_of (snd (compute_forces (bodies s))) = map constants_of (bodies s)"
    by (rule compute_forces_frame) (simp_all add: constants_of_def)
  have up: "\<And>bs. map constants_of (update_positions bs (dt s)) = map constants_of bs"
    by (rule update_positions_frame) (simp_all add: constants_of_def)
  show ?thesis
    using cf up by (auto simp: run_simulation_def Let_def split: prod.splits option.splits)
qed

text \<open>
  Claim C10. compute_forces, also when it raises, leaves every field other than the
  acceleration as it was; update_positions leaves every field other than the position
  and the previous position as it was; so mass, velocity and color of every body are the
  same after any number of calls of run_simulation.
\<close>

theorem frame_effects:
  "map outside_acc (snd (compute_forces bs)) = map outside_acc bs \<and>
   map outside_pos (update_positions bs delta) = map outside_pos bs \<and>
   map constants_of (bodies (run_steps k s)) = map constants_of (bodies s)"
proof -
  have a: "map outside_acc (snd (compute_forces bs)) = map outside_acc bs"
    by (rule compute_forces_frame) (simp_all add: outside_acc_def)
  have b: "map outside_pos (update_positions bs delta) = map outside_pos bs"
    by (rule update_positions_frame) (simp_all add: outside_pos_def)
  have c: "map constants_of (bodies (run_steps k s)) = map constants_of (bodies s)"
    by (induction k arbitrary: s) (simp_all add: run_simulation_constants)
  from a b c show ?thesis by simp
qed

subsection \<open>When the force computation fails\<close>

lemma sum_squares_zero: "(a::real) ^ 2 + b ^ 2 = 0 \<longleftrightarrow> a = 0 \<and> b = 0"
  by (rule sum_power2_eq_zero_iff)

lemma pair_step_coincident:
  "body_pos (bs ! i) = body_pos (bs ! j) \<Longrightarrow> pair_step bs i j = (Some ZeroDivisionError, bs)"
  by (simp add: pair_step_def body_pos_def Let_def)

lemma pair_step_succeeds:
  "body_pos (bs ! i) \<noteq> body_pos (bs ! j) \<Longrightarrow> body_mass (bs ! i) \<noteq> 0 \<Longrightarrow>
   body_mass (bs ! j) \<noteq> 0 \<Longrightarrow> fst (pair_step bs i j) = None"
  unfolding pair_step_def body_pos_def Let_def
  by (auto simp only: sum_squares_zero fst_conv prod.inject right_minus_eq simp_thms
           split: if_split)

lemma run_pairs_fst:
  "map body_pos bs = P \<Longrightarrow> map body_mass bs = M \<Longrightarrow> 0 \<notin> set M \<Longrightarrow>
   \<forall>(i, j) \<in> set ps. i < length P \<and> j < length P \<Longrightarrow>
   fst (run_pairs ps bs) =
     (if \<exists>(i, j) \<in> set ps. P ! i = P ! j then Some ZeroDivisionError else None)"
proof (induction ps arbitrary: bs)
  case Nil
  then show ?case by simp
next
  case (Cons p ps)
  obtain i j where p: "p = (i, j)" by (cases p)
  from Cons.prems p have ij: "i < length bs" "j < length bs" by auto
  have Pi: "P ! i = body_pos (bs ! i)" and Pj: "P ! j = body_pos (bs ! j)"
    using Cons.prems(1) ij by auto
  show ?case
  proof (cases "P ! i = P ! j")
    case True
    then show ?thesis using p Pi Pj by (simp add: pair_step_coincident)
  next
    case False
    have mi: "body_mass (bs ! i) \<noteq> 0"
      using Cons.prems(2,3) ij by (metis nth_map nth_mem length_map)
    have mj: "body_mass (bs ! j) \<noteq> 0"
      using Cons.prems(2,3) ij by (metis nth_map nth_mem length_map)
    obtain e bs' where st: "pair_step bs i j = (e, bs')" by (cases "pair_step bs i j")
    have e: "e = None"
      using pair_step_succeeds [of bs i j] False Pi Pj mi mj st by simp
    have "map body_pos bs' = map body_pos bs"
      using pair_step_frame [of body_pos bs i j] st by (simp add: body_pos_def)
    then have P': "map body_pos bs' = P" using Cons.prems(1) by simp
    have "map body_mass bs' = map body_mass bs"
      using pair_step_frame [of body_mass bs i j] st by simp
    then have M': "map body_mass bs' = M" using Cons.prems(2) by simp
    have rest: "\<forall>(i, j) \<in> set ps. i < length P \<and> j < length P"
      using Cons.prems(4) by simp
    show ?thesis
      using Cons.IH [OF P' M' Cons.prems(3) rest] p st e False by simp
  qed
qed

lemma compute_forces_fst:
  assumes "0 \<notin> set (map body_mass bs)"
  shows "fst (compute_forces bs) =
     (if \<exists>i j. i < j \<and> j < length bs \<and> body_pos (bs ! i) = body_pos (bs ! j)
      then Some ZeroDivisionError else None)"
proof -
  let ?bs = "map reset_acc bs"
  have P: "map body_pos ?bs = map body_pos bs"
    by (simp add: reset_acc_def body_pos_def)
  have M: "map body_mass ?bs = map body_mass bs"
    by (simp add: reset_acc_def)
  have rng: "\<forall>(i, j) \<in> set (pair_order (length bs)).
               i < length (map body_pos bs) \<and> j < length (map body_pos bs)"
    by (auto simp: set_pair_order)
  have "(\<exists>(i, j) \<in> set (pair_order (length bs)). map body_pos bs ! i = map body_pos bs ! j)
      \<longleftrightarrow> (\<exists>i j. i < j \<and> j < length bs \<and> body_pos (bs ! i) = body_pos (bs ! j))"
    (is "?lhs \<longleftrightarrow> ?rhs")
  proof
    assume ?lhs
    then obtain i j where "i < j" "j < length bs" "map body_pos bs ! i = map body_pos bs ! j"
      by (auto simp: set_pair_order)
    moreover from this have "body_pos (bs ! i) = body_pos (bs ! j)" by simp
    ultimately show ?rhs by blast
  next
    assume ?rhs
    then obtain i j where ij: "i < j" "j < length bs" "body_pos (bs ! i) = body_pos (bs ! j)"
      by blast
    then have "(i, j) \<in> set (pair_order (length bs))"
      "map body_pos bs ! i = map body_pos bs ! j"
      by (simp_all add: set_pair_order)
    then show ?lhs by blast
  qed
  then show ?thesis
    using run_pairs_fst [OF P M assms rng] by (simp add: compute_forces_run_pairs)
qed

lemma bodies_coincident_state:
  "bodies coincident_state = presets Sistema_Solar @ [Body (10 ^ 24) 0 0 0 0 ''white'']"
  by (simp add: coincident_state_def validate_new_body_def default_entries_def init_app_def
        load_selected_preset_def Let_def Body_def)

text \<open>
  Claim C2. Two bodies at the same position make the squared distance zero, and line 39
  divides by it: the softening term of line 37 is added to the distance \<open>r\<close>, not to
  \<open>r_sq\<close>. With the solar system loaded and a body added with the values the dialog
  proposes (position 0, 0, where the sun is), starting the simulation raises
  \<open>ZeroDivisionError\<close>.
\<close>

theorem coincident_bodies_raise:
  "fst (toggle_simulation coincident_state) = Some ZeroDivisionError"
proof -
  let ?bs = "bodies coincident_state"
  have m: "0 \<notin> set (map body_mass ?bs)"
    by (simp add: bodies_coincident_state Body_def)
  have "(0::nat) < 4 \<and> 4 < length ?bs \<and> body_pos (?bs ! 0) = body_pos (?bs ! 4)"
    by (simp add: bodies_coincident_state Body_def body_pos_def)
  then have "\<exists>i j. i < j \<and> j < length ?bs \<and> body_pos (?bs ! i) = body_pos (?bs ! j)"
    by blast
  then have cf: "fst (compute_forces ?bs) = Some ZeroDivisionError"
    using compute_forces_fst [OF m] by simp
  have nr: "\<not> is_running coincident_state"
    by (simp add: coincident_state_def validate_new_body_def default_entries_def init_app_def
          load_selected_preset_def Let_def)
  show ?thesis
    using cf nr
    by (auto simp: toggle_simulation_def run_simulation_def Let_def
             split: prod.splits option.splits)
qed

lemma pair_step_result:
  assumes "i < length bs" and "j < length bs" and "i \<noteq> j"
    and "pair_step bs i j = (None, bs')"
  shows "body_mass (bs ! i) \<noteq> 0" and "body_mass (bs ! j) \<noteq> 0"
    and "body_ax (bs' ! i) = body_ax (bs ! i) + fst (pair_force (bs ! i) (bs ! j)) / body_mass (bs ! i)"
    and "body_ay (bs' ! i) = body_ay (bs ! i) + snd (pair_force (bs ! i) (bs ! j)) / body_mass (bs ! i)"
    and "body_ax (bs' ! j) = body_ax (bs ! j) - fst (pair_force (bs ! i) (bs ! j)) / body_mass (bs ! j)"
    and "body_ay (bs' ! j) = body_ay (bs ! j) - snd (pair_force (bs ! i) (bs ! j)) / body_mass (bs ! j)"
  using assms
  by (auto simp: pair_step_def pair_force_def Let_def split: if_splits)


subsection \<open>The two accelerations of a pair\<close>

text \<open>
  Claim C3, amended. When the loop body succeeds on the pair \<open>i < j\<close>, it adds the force
  of the pair divided by the mass of \<open>i\<close> to the acceleration of \<open>i\<close> and subtracts
  the same force divided by the mass of \<open>j\<close> from that of \<open>j\<close>. For two positive
  masses the contribution to \<open>j\<close> is therefore a negative multiple of the one to
  \<open>i\<close>, opposite in direction, the factor being the ratio of the masses; and the two
  contributions are equal in magnitude once each is multiplied by the mass of its body
  (in the exact arithmetic of the model). compute_forces runs the loop body over the
  pairs \<open>i < j < n\<close>, each exactly once.
\<close>

theorem pair_contributions:
  assumes "i < j" and "j < length bs" and "pair_step bs i j = (None, bs')"
  shows
   "body_ax (bs' ! i) = body_ax (bs ! i) + fst (pair_force (bs ! i) (bs ! j)) / body_mass (bs ! i) \<and>
    body_ay (bs' ! i) = body_ay (bs ! i) + snd (pair_force (bs ! i) (bs ! j)) / body_mass (bs ! i) \<and>
    body_ax (bs' ! j) = body_ax (bs ! j) - fst (pair_force (bs ! i) (bs ! j)) / body_mass (bs ! j) \<and>
    body_ay (bs' ! j) = body_ay (bs ! j) - snd (pair_force (bs ! i) (bs ! j)) / body_mass (bs ! j) \<and>
    (0 < body_mass (bs ! i) \<and> 0 < body_mass (bs ! j) \<longrightarrow>
       0 < body_mass (bs ! i) / body_mass (bs ! j) \<and>
       body_ax (bs' ! j) - body_ax (bs ! j)
         = - (body_mass (bs ! i) / body_mass (bs ! j)) * (body_ax (bs' ! i) - body_ax (bs ! i)) \<and>
       body_ay (bs' ! j) - body_ay (bs ! j)
         = - (body_mass (bs ! i) / body_mass (bs ! j)) * (body_ay (bs' ! i) - body_ay (bs ! i))) \<and>
    body_mass (bs ! i) * (body_ax (bs' ! i) - body_ax (bs ! i))
      = - (body_mass (bs ! j) * (body_ax (bs' ! j) - body_ax (bs ! j))) \<and>
    body_mass (bs ! i) * (body_ay (bs' ! i) - body_ay (bs ! i))
      = - (body_mass (bs ! j) * (body_ay (bs' ! j) - body_ay (bs ! j))) \<and>
    compute_forces bs = run_pairs (pair_order (length bs)) (map reset_acc bs) \<and>
    distinct (pair_order (length bs)) \<and>
    set (pair_order (length bs)) = {(a, b). a < b \<and> b < length bs}"
proof -
  have i: "i < length bs" and ne: "i \<noteq> j" using assms(1,2) by simp_all
  note r = pair_step_result [OF i assms(2) ne assms(3)]
  have acc: "body_ax (bs' ! i) = body_ax (bs ! i) + fst (pair_force (bs ! i) (bs ! j)) / body_mass (bs ! i)"
    "body_ay (bs' ! i) = body_ay (bs ! i) + snd (pair_force (bs ! i) (bs ! j)) / body_mass (bs ! i)"
    "body_ax (bs' ! j) = body_ax (bs ! j) - fst (pair_force (bs ! i) (bs ! j)) / body_mass (bs ! j)"
    "body_ay (bs' ! j) = body_ay (bs ! j) - snd (pair_force (bs ! i) (bs ! j)) / body_mass (bs ! j)"
    using r by simp_all
  have opp: "0 < body_mass (bs ! i) / body_mass (bs ! j) \<and>
       body_ax (bs' ! j) - body_ax (bs ! j)
         = - (body_mass (bs ! i) / body_mass (bs ! j)) * (body_ax (bs' ! i) - body_ax (bs ! i)) \<and>
       body_ay (bs' ! j) - body_ay (bs ! j)
         = - (body_mass (bs ! i) / body_mass (bs ! j)) * (body_ay (bs' ! i) - body_ay (bs ! i))"
    if "0 < body_mass (bs ! i)" "0 < body_mass (bs ! j)"
    using that acc by simp
  have force: "body_mass (bs ! i) * (body_ax (bs' ! i) - body_ax (bs ! i))
      = - (body_mass (bs ! j) * (body_ax (bs' ! j) - body_ax (bs ! j)))"
    "body_mass (bs ! i) * (body_ay (bs' ! i) - body_ay (bs ! i))
      = - (body_mass (bs ! j) * (body_ay (bs' ! j) - body_ay (bs ! j)))"
    using r by simp_all
  from acc opp force show ?thesis
    by (simp add: compute_forces_run_pairs distinct_pair_order set_pair_order)
qed

lemma pair_order_2: "pair_order (Suc (Suc 0)) = [(0, Suc 0)]"
  by (simp add: pair_order_def)

lemma two_indices: "i < j \<Longrightarrow> j < Suc (Suc 0) \<Longrightarrow> i = 0 \<and> j = Suc 0"
  by arith

lemma compute_forces_two:
  "compute_forces [a, b] = pair_step [reset_acc a, reset_acc b] 0 1"
  by (simp add: compute_forces_run_pairs pair_order_2 split: prod.splits option.splits)

lemma lunar_succeeds: "fst (compute_forces (presets Orbita_Lunar)) = None"
proof -
  have m: "0 \<notin> set (map body_mass (presets Orbita_Lunar))" by (simp add: Body_def)
  have "\<not> (\<exists>i j. i < j \<and> j < length (presets Orbita_Lunar) \<and>
          body_pos (presets Orbita_Lunar ! i) = body_pos (presets Orbita_Lunar ! j))"
  proof
    assume "\<exists>i j. i < j \<and> j < length (presets Orbita_Lunar) \<and>
          body_pos (presets Orbita_Lunar ! i) = body_pos (presets Orbita_Lunar ! j)"
    then obtain i j where ij: "i < j" "j < Suc (Suc 0)"
      and eq: "body_pos (presets Orbita_Lunar ! i) = body_pos (presets Orbita_Lunar ! j)"
      by auto
    from two_indices [OF ij] eq show False
      by (simp add: Body_def body_pos_def)
  qed
  then show ?thesis using compute_forces_fst [OF m] by simp
qed

text \<open>
  Claim C3, as stated, fails: for the earth and the moon of the third preset the
  computation succeeds, and the two accelerations differ in magnitude, as the masses do.
\<close>

theorem equal_magnitude_counterexample:
  "fst (compute_forces (presets Orbita_Lunar)) = None \<and>
   \<bar>body_ax (snd (compute_forces (presets Orbita_Lunar)) ! 0)\<bar>
     \<noteq> \<bar>body_ax (snd (compute_forces (presets Orbita_Lunar)) ! 1)\<bar>"
proof -
  define b0 where "b0 = reset_acc (Body (59724 * 10 ^ 20) 0 0 0 0 ''blue'')"
  define b1 where "b1 = reset_acc (Body (7342 * 10 ^ 19) (3844 * 10 ^ 5) 0 0 1022 ''gray'')"
  define bs' where "bs' = snd (compute_forces (presets Orbita_Lunar))"
  define f where "f = fst (pair_force b0 b1)"
  have cf: "compute_forces (presets Orbita_Lunar) = pair_step [b0, b1] 0 1"
    by (simp add: compute_forces_two b0_def b1_def)
  have ok: "pair_step [b0, b1] 0 1 = (None, bs')"
    using lunar_succeeds cf by (simp add: bs'_def prod_eq_iff)
  have r0: "body_ax (bs' ! 0) = body_ax ([b0, b1] ! 0) + fst (pair_force ([b0, b1] ! 0) ([b0, b1] ! 1)) / body_mass ([b0, b1] ! 0)"
    by (rule pair_step_result(3) [OF _ _ _ ok]) simp_all
  have r1: "body_ax (bs' ! 1) = body_ax ([b0, b1] ! 1) - fst (pair_force ([b0, b1] ! 0) ([b0, b1] ! 1)) / body_mass ([b0, b1] ! 1)"
    by (rule pair_step_result(5) [OF _ _ _ ok]) simp_all
  have a0: "body_ax (bs' ! 0) = f / (59724 * 10 ^ 20)"
    using r0 by (simp add: f_def b0_def b1_def reset_acc_def Body_def)
  have a1: "body_ax (bs' ! 1) = - (f / (7342 * 10 ^ 19))"
    using r1 by (simp add: f_def b0_def b1_def reset_acc_def Body_def)
  have "sqrt ((3844 * 10 ^ 5) ^ 2) + 1 / 10 ^ 10 > (0::real)"
    by (rule add_nonneg_pos) simp_all
  then have fpos: "f > 0"
    by (simp add: f_def pair_force_def b0_def b1_def reset_acc_def Body_def G_def Let_def)
  have "\<bar>body_ax (bs' ! 0)\<bar> \<noteq> \<bar>body_ax (bs' ! 1)\<bar>"
    using fpos unfolding a0 a1 by (simp add: field_simps)
  then show ?thesis using lunar_succeeds by (simp add: bs'_def)
qed

theorem pair_contributions_witness:
  "(0::nat) < 1 \<and> 1 < length (map reset_acc (presets Orbita_Lunar)) \<and>
   fst (pair_step (map reset_acc (presets Orbita_Lunar)) 0 1) = None \<and>
   0 < body_mass (map reset_acc (presets Orbita_Lunar) ! 0) \<and>
   0 < body_mass (map reset_acc (presets Orbita_Lunar) ! 1) \<and>
   body_ax (snd (pair_step (map reset_acc (presets Orbita_Lunar)) 0 1) ! 1)
     - body_ax (map reset_acc (presets Orbita_Lunar) ! 1)
   = - (body_mass (map reset_acc (presets Orbita_Lunar) ! 0)
        / body_mass (map reset_acc (presets Orbita_Lunar) ! 1))
     * (body_ax (snd (pair_step (map reset_acc (presets Orbita_Lunar)) 0 1) ! 0)
        - body_ax (map reset_acc (presets Orbita_Lunar) ! 0)) \<and>
   body_mass (map reset_acc (presets Orbita_Lunar) ! 0)
     * (body_ax (snd (pair_step (map reset_acc (presets Orbita_Lunar)) 0 1) ! 0)
        - body_ax (map reset_acc (presets Orbita_Lunar) ! 0))
   = - (body_mass (map reset_acc (presets Orbita_Lunar) ! 1)
     * (body_ax (snd (pair_step (map reset_acc (presets Orbita_Lunar)) 0 1) ! 1)
        - body_ax (map reset_acc (presets Orbita_Lunar) ! 1)))"
proof -
  let ?L = "map reset_acc (presets Orbita_Lunar)"
  have h1: "(0::nat) < 1" by simp
  have h2: "1 < length ?L" by simp
  have ok: "fst (pair_step ?L 0 1) = None"
    by (rule pair_step_succeeds) (simp_all add: body_pos_def reset_acc_def Body_def)
  then have h3: "pair_step ?L 0 1 = (None, snd (pair_step ?L 0 1))"
    by (simp add: prod_eq_iff)
  have m0: "0 < body_mass (?L ! 0)" and m1: "0 < body_mass (?L ! 1)"
    by (simp_all add: reset_acc_def Body_def)
  from pair_contributions [OF h1 h2 h3] h1 h2 ok m0 m1 show ?thesis by blast
qed

subsection \<open>One simulation step\<close>












subsection \<open>Changing the trail length\<close>

lemma py_int_decimal_point: "py_int ''50.0'' = Inl ValueError"
  by (simp add: py_int_def strip_def unsigned_int_def is_space_def is_digit_def digit_val_def)

lemma py_int_whole: "py_int ''50'' = Inr 50"
  by (simp add: py_int_def strip_def unsigned_int_def is_space_def is_digit_def digit_val_def)

lemma long_trail_state_fields:
  "trail_length long_trail_state = 100"
  "trails long_trail_state ! 0 = \<lparr>maxlen = 100, items = replicate 60 (0, 0)\<rparr>"
  by (simp_all add: long_trail_state_def init_app_fields)

text \<open>
  The trim of lines 204 and 205 removes one sample for each sample recorded: under a
  trail length of 50, a trail of 60 samples holds 60 samples again after the next record
  call.
\<close>

lemma trim_pops_once:
  "record_sample 50 \<lparr>maxlen = 100, items = replicate 60 (0, 0)\<rparr> (1, 1)
     = Inr \<lparr>maxlen = 100, items = replicate 59 (0, 0) @ [(1, 1)]\<rparr>"
proof -
  have r: "replicate 60 (0::real, 0::real) = (0, 0) # replicate 59 (0, 0)"
    by (simp add: replicate_Suc [symmetric] del: replicate_Suc)
  show ?thesis
    unfolding r by (simp add: record_sample_def deque_append_def popleft_def Let_def)
qed

text \<open>
  Claim C8. With 60 samples in every trail, the slider is moved to 50 and its command is
  called with the text the slider passes, \<open>''50.0''\<close>: \<open>int\<close> raises ValueError, the
  trail length stays 100, and the trails keep their 60 samples.
\<close>

theorem trail_slider_raises:
  "set_trail_length long_trail_state ''50.0'' = (Some ValueError, long_trail_state) \<and>
   trail_length (snd (set_trail_length long_trail_state ''50.0'')) = 100 \<and>
   length (items (trails (snd (set_trail_length long_trail_state ''50.0'')) ! 0)) = 60"
  by (simp add: set_trail_length_def py_int_decimal_point long_trail_state_fields)

end
